theory Spec2Isabelle
  imports Complex_Main
begin

section \<open>The analytic device model of the GaN MOSFET simulator\<close>

text \<open>
  The physics functions of \<^verbatim>\<open>pages/3_Simulation_Interface.py\<close> and
  \<^verbatim>\<open>pages/4_Graphs_and_Trends.py\<close> are embedded as HOL functions. A Python
  \<^verbatim>\<open>float\<close> is modelled by a \<^typ>\<open>real\<close>: the arithmetic is exact, rounding and
  overflow of IEEE doubles are not represented, except in the double-precision model
  of the Varshni relation below. Everything else a call can do is a
  constructor of the result type: it returns a float, it returns a value of complex
  type (a negative float raised to a fractional power), or it raises.
\<close>

subsection \<open>Outcomes of a Python expression\<close>

datatype pyerror = ZeroDivisionError | KeyError string

datatype 'a outcome = Returns 'a | ReturnsComplex | Raises pyerror

fun raises :: "'a outcome \<Rightarrow> bool" where
  "raises (Raises e) = True"
| "raises (Returns v) = False"
| "raises ReturnsComplex = False"

text \<open>Sequencing: an exception or a complex operand decides the whole expression.\<close>

fun obind :: "'a outcome \<Rightarrow> ('a \<Rightarrow> 'b outcome) \<Rightarrow> 'b outcome" where
  "obind (Returns v) f = f v"
| "obind ReturnsComplex f = ReturnsComplex"
| "obind (Raises e) f = Raises e"

text \<open>\<^verbatim>\<open>a / b\<close> on Python floats.\<close>

definition float_div :: "real \<Rightarrow> real \<Rightarrow> real outcome" where
  "float_div a b = (if b = 0 then Raises ZeroDivisionError else Returns (a / b))"

text \<open>
  \<^verbatim>\<open>x ** y\<close> on Python floats: \<^verbatim>\<open>x ** 0.0\<close> is 1.0, \<^verbatim>\<open>0.0 ** y\<close> is 0.0 for
  positive \<open>y\<close> and raises for negative \<open>y\<close>, a negative base gives a float for an
  integral exponent and a complex number otherwise.
\<close>

definition float_pow :: "real \<Rightarrow> real \<Rightarrow> real outcome" where
  "float_pow x y =
     (if y = 0 then Returns 1
      else if x = 0 then (if y < 0 then Raises ZeroDivisionError else Returns 0)
      else if x < 0 then
        (if of_int \<lfloor>y\<rfloor> = y
         then Returns ((if even \<lfloor>y\<rfloor> then 1 else - 1) * (- x) powr y)
         else ReturnsComplex)
      else Returns (x powr y))"

subsection \<open>Temperature models\<close>

text \<open>
  The material page, lines 767 to 775:
  \<^verbatim>\<open>
  def mobility_temp_dep(mu_0, T_celsius, material):
      T_kelvin = T_celsius + 273.15
      if material in ["GaN", "AlGaN"]:
          return mu_0 * (300 / T_kelvin)**1.5
      elif material == "SiC":
          return mu_0 * (300 / T_kelvin)**2.0
      else:
          return mu_0 * (300 / T_kelvin)**1.7
  \<close>
\<close>

definition mobility_temp_dep :: "real \<Rightarrow> real \<Rightarrow> string \<Rightarrow> real outcome" where
  "mobility_temp_dep mu_0 T_celsius material =
     (let T_kelvin = T_celsius + 273.15 in
      if material \<in> set [''GaN'', ''AlGaN''] then
        obind (float_div 300 T_kelvin) (\<lambda>q.
        obind (float_pow q 1.5) (\<lambda>p. Returns (mu_0 * p)))
      else if material = ''SiC'' then
        obind (float_div 300 T_kelvin) (\<lambda>q.
        obind (float_pow q 2.0) (\<lambda>p. Returns (mu_0 * p)))
      else
        obind (float_div 300 T_kelvin) (\<lambda>q.
        obind (float_pow q 1.7) (\<lambda>p. Returns (mu_0 * p))))"

text \<open>
  The real-time page (lines 114 to 117) and the trends page (lines 70 to 72) have no
  material argument:
  \<^verbatim>\<open>
  def mobility_temp_dep(mu_0, T_celsius):
      T_kelvin = T_celsius + 273.15
      return mu_0 * (300 / T_kelvin)**1.5
  \<close>
\<close>

definition mobility_temp_dep_realtime :: "real \<Rightarrow> real \<Rightarrow> real outcome" where
  "mobility_temp_dep_realtime mu_0 T_celsius =
     (let T_kelvin = T_celsius + 273.15 in
      obind (float_div 300 T_kelvin) (\<lambda>q.
      obind (float_pow q 1.5) (\<lambda>p. Returns (mu_0 * p))))"

text \<open>
  The Varshni relation of the material page, lines 777 to 789:
  \<^verbatim>\<open>
  def bandgap_temp_dep(Eg_0, T_celsius, material):
      T_kelvin = T_celsius + 273.15
      if material in ["GaN", "AlGaN"]:
          alpha = 0.909e-3
          beta = 830
      elif material == "SiC":
          alpha = 0.0003
          beta = 700
      else:
          alpha = 0.0005
          beta = 300
      return Eg_0 - (alpha * T_kelvin**2) / (T_kelvin + beta)
  \<close>
  \<^verbatim>\<open>T_kelvin**2\<close> has an integer exponent and is a float for every float base.
\<close>

definition bandgap_temp_dep :: "real \<Rightarrow> real \<Rightarrow> string \<Rightarrow> real outcome" where
  "bandgap_temp_dep Eg_0 T_celsius material =
     (let T_kelvin = T_celsius + 273.15;
          (alpha, beta) =
            (if material \<in> set [''GaN'', ''AlGaN''] then (0.000909, 830)
             else if material = ''SiC'' then (0.0003, 700)
             else (0.0005, 300))
      in obind (float_div (alpha * T_kelvin\<^sup>2) (T_kelvin + beta)) (\<lambda>q.
         Returns (Eg_0 - q)))"

text \<open>
  The real-time page (lines 119 to 124) and the trends page (lines 74 to 78):
  \<^verbatim>\<open>
  def bandgap_temp_dep(Eg_0, T_celsius):
      T_kelvin = T_celsius + 273.15
      alpha = 0.909e-3  # eV/K for GaN
      beta = 830        # K for GaN
      return Eg_0 - (alpha * T_kelvin**2) / (T_kelvin + beta)
  \<close>
\<close>

definition bandgap_temp_dep_realtime :: "real \<Rightarrow> real \<Rightarrow> real outcome" where
  "bandgap_temp_dep_realtime Eg_0 T_celsius =
     (let T_kelvin = T_celsius + 273.15;
          alpha = 0.000909;
          beta = 830
      in obind (float_div (alpha * T_kelvin\<^sup>2) (T_kelvin + beta)) (\<lambda>q.
         Returns (Eg_0 - q)))"

subsection \<open>Electrical models\<close>

text \<open>
  Lines 126 to 130 (and 791 to 793), the default of \<^verbatim>\<open>thickness\<close> being
  \<^verbatim>\<open>2e-6\<close>:
  \<^verbatim>\<open>
  def breakdown_voltage_model(Eg, thickness=2e-6):
      base_bv = 350  # V for reference GaN
      return base_bv * (Eg / 3.4)**2.5 * (thickness / 2e-6)
  \<close>
\<close>

definition breakdown_voltage_model :: "real \<Rightarrow> real \<Rightarrow> real outcome" where
  "breakdown_voltage_model Eg thickness =
     (let base_bv = 350 in
      obind (float_pow (Eg / 3.4) 2.5) (\<lambda>p.
      Returns (base_bv * p * (thickness / 0.000002))))"

definition thickness_default :: real where
  "thickness_default = 0.000002"

text \<open>
  Lines 138 to 158 (and 795 to 809), for a float \<^verbatim>\<open>Vds\<close>:
  \<^verbatim>\<open>
  def drain_current_model(mu_eff, Vgs, Vds, Eg_eff, T_celsius,
                          Vth=2.0, W=100e-6, L=1e-6, Cox=1.5e-6):
      beta = mu_eff * Cox * (W/L) * 1e-4  # Conversion factor
      Vds_sat = Vgs - Vth  # Saturation voltage
      Id_linear = beta * ((Vgs - Vth) * Vds - 0.5 * Vds**2)
      Id_sat = 0.5 * beta * (Vgs - Vth)**2 * (1 + 0.02 * Vds)  # Including CLM
      thermal_factor = np.exp(-(T_celsius - 25) / 150)
      bandgap_factor = (Eg_eff / 3.4)**0.5
      Id = np.where(Vds < Vds_sat, Id_linear, Id_sat) * thermal_factor * bandgap_factor
      Id = np.where(Vgs < Vth, 1e-12, Id)  # Subthreshold leakage
      return np.maximum(Id, 1e-12)
  \<close>
  \<^verbatim>\<open>W/L\<close> divides two Python floats and raises for \<^verbatim>\<open>L == 0\<close>;
  \<^verbatim>\<open>bandgap_factor\<close> is complex for a negative \<^verbatim>\<open>Eg_eff\<close>, and then so is the
  result.
\<close>

definition drain_current_model ::
  "real \<Rightarrow> real \<Rightarrow> real \<Rightarrow> real \<Rightarrow> real \<Rightarrow> real \<Rightarrow> real \<Rightarrow> real \<Rightarrow> real \<Rightarrow> real outcome" where
  "drain_current_model mu_eff Vgs Vds Eg_eff T_celsius Vth W L Cox =
     obind (float_div W L) (\<lambda>r.
       let beta = mu_eff * Cox * r * 0.0001;
           Vds_sat = Vgs - Vth;
           Id_linear = beta * ((Vgs - Vth) * Vds - 0.5 * Vds\<^sup>2);
           Id_sat = 0.5 * beta * (Vgs - Vth)\<^sup>2 * (1 + 0.02 * Vds);
           thermal_factor = exp (- (T_celsius - 25) / 150)
       in obind (float_pow (Eg_eff / 3.4) 0.5) (\<lambda>bandgap_factor.
            let Id = (if Vds < Vds_sat then Id_linear else Id_sat)
                       * thermal_factor * bandgap_factor;
                Id = (if Vgs < Vth then 0.000000000001 else Id)
            in Returns (max Id 0.000000000001)))"

text \<open>The default arguments \<^verbatim>\<open>Vth=2.0, W=100e-6, L=1e-6, Cox=1.5e-6\<close>.\<close>

definition Vth_default :: real where
  "Vth_default = 2.0"

definition W_default :: real where
  "W_default = 0.0001"

definition L_default :: real where
  "L_default = 0.000001"

definition Cox_default :: real where
  "Cox_default = 0.0000015"

lemmas drain_defaults = Vth_default_def W_default_def L_default_def Cox_default_def

text \<open>
  The same function for a one-dimensional array \<^verbatim>\<open>Vds\<close> (a list): every NumPy
  operation is elementwise, a float operand is broadcast over the array.
\<close>

definition arr_scale :: "real \<Rightarrow> real list \<Rightarrow> real list" where
  "arr_scale c xs = map (\<lambda>x. c * x) xs"

definition arr_shift :: "real \<Rightarrow> real list \<Rightarrow> real list" where
  "arr_shift c xs = map (\<lambda>x. c + x) xs"

definition arr_square :: "real list \<Rightarrow> real list" where
  "arr_square xs = map (\<lambda>x. x\<^sup>2) xs"

definition arr_sub :: "real list \<Rightarrow> real list \<Rightarrow> real list" where
  "arr_sub xs ys = map (\<lambda>(x, y). x - y) (zip xs ys)"

definition arr_less :: "real list \<Rightarrow> real \<Rightarrow> bool list" where
  "arr_less xs c = map (\<lambda>x. x < c) xs"

definition np_where :: "bool list \<Rightarrow> real list \<Rightarrow> real list \<Rightarrow> real list" where
  "np_where cs xs ys = map (\<lambda>(c, x, y). if c then x else y) (zip cs (zip xs ys))"

definition np_where_scalar :: "bool \<Rightarrow> real \<Rightarrow> real list \<Rightarrow> real list" where
  "np_where_scalar c x ys = map (\<lambda>y. if c then x else y) ys"

definition np_maximum :: "real list \<Rightarrow> real \<Rightarrow> real list" where
  "np_maximum xs c = map (\<lambda>x. max x c) xs"

definition drain_current_model_array ::
  "real \<Rightarrow> real \<Rightarrow> real list \<Rightarrow> real \<Rightarrow> real \<Rightarrow> real \<Rightarrow> real \<Rightarrow> real \<Rightarrow> real \<Rightarrow> real list outcome"
  where
  "drain_current_model_array mu_eff Vgs Vds Eg_eff T_celsius Vth W L Cox =
     obind (float_div W L) (\<lambda>r.
       let beta = mu_eff * Cox * r * 0.0001;
           Vds_sat = Vgs - Vth;
           Id_linear = arr_scale beta
             (arr_sub (arr_scale (Vgs - Vth) Vds) (arr_scale 0.5 (arr_square Vds)));
           Id_sat = arr_scale (0.5 * beta * (Vgs - Vth)\<^sup>2)
             (arr_shift 1 (arr_scale 0.02 Vds));
           thermal_factor = exp (- (T_celsius - 25) / 150)
       in obind (float_pow (Eg_eff / 3.4) 0.5) (\<lambda>bandgap_factor.
            let Id = arr_scale bandgap_factor (arr_scale thermal_factor
                       (np_where (arr_less Vds Vds_sat) Id_linear Id_sat));
                Id = np_where_scalar (Vgs < Vth) 0.000000000001 Id
            in Returns (np_maximum Id 0.000000000001)))"

text \<open>
  The trends page, lines 83 to 93, has neither the thermal nor the bandgap factor:
  \<^verbatim>\<open>
  def drain_current_model(mu_eff, Vgs, Vds, Vth=2.0, W=100e-6, L=1e-6, Cox=1.5e-6):
      beta = mu_eff * Cox * (W/L) * 1e-4
      Vds_sat = Vgs - Vth
      Id_linear = beta * ((Vgs - Vth) * Vds - 0.5 * Vds**2)
      Id_sat = 0.5 * beta * (Vgs - Vth)**2 * (1 + 0.02 * Vds)
      Id = np.where(Vds < Vds_sat, Id_linear, Id_sat)
      Id = np.where(Vgs < Vth, 1e-12, Id)
      return np.maximum(Id, 1e-12)
  \<close>
\<close>

definition drain_current_model_trends ::
  "real \<Rightarrow> real \<Rightarrow> real \<Rightarrow> real \<Rightarrow> real \<Rightarrow> real \<Rightarrow> real \<Rightarrow> real outcome" where
  "drain_current_model_trends mu_eff Vgs Vds Vth W L Cox =
     obind (float_div W L) (\<lambda>r.
       let beta = mu_eff * Cox * r * 0.0001;
           Vds_sat = Vgs - Vth;
           Id_linear = beta * ((Vgs - Vth) * Vds - 0.5 * Vds\<^sup>2);
           Id_sat = 0.5 * beta * (Vgs - Vth)\<^sup>2 * (1 + 0.02 * Vds);
           Id = (if Vds < Vds_sat then Id_linear else Id_sat);
           Id = (if Vgs < Vth then 0.000000000001 else Id)
       in Returns (max Id 0.000000000001))"

subsection \<open>The material database\<close>

text \<open>
  Lines 723 to 764: a dictionary from material name to a dictionary of properties.
  A subscription \<^verbatim>\<open>material_properties[name]\<close> raises \<^verbatim>\<open>KeyError\<close> for a name that
  is not a key.
\<close>

record material_props =
  Bandgap :: real
  Mobility :: int
  Breakdown_Field :: real
  Thermal_Conductivity :: real
  Color :: string
  Description :: string

definition material_properties :: "(string \<times> material_props) list" where
  "material_properties =
     [(''GaN'', \<lparr>Bandgap = 3.4, Mobility = 2000, Breakdown_Field = 3.3,
         Thermal_Conductivity = 1.3, Color = ''#2ecc71'',
         Description = ''Wide bandgap semiconductor with high electron mobility''\<rparr>),
      (''AlGaN'', \<lparr>Bandgap = 4.0, Mobility = 1500, Breakdown_Field = 3.5,
         Thermal_Conductivity = 1.1, Color = ''#3498db'',
         Description = ''Aluminum Gallium Nitride barrier layer''\<rparr>),
      (''SiC'', \<lparr>Bandgap = 3.26, Mobility = 900, Breakdown_Field = 3.5,
         Thermal_Conductivity = 4.9, Color = ''#e74c3c'',
         Description = ''Silicon Carbide substrate with excellent thermal conductivity''\<rparr>),
      (''GaAs'', \<lparr>Bandgap = 1.42, Mobility = 8500, Breakdown_Field = 0.4,
         Thermal_Conductivity = 0.55, Color = ''#9b59b6'',
         Description = ''Gallium Arsenide with very high electron mobility''\<rparr>),
      (''Si'', \<lparr>Bandgap = 1.12, Mobility = 1400, Breakdown_Field = 0.3,
         Thermal_Conductivity = 1.5, Color = ''#f39c12'',
         Description = ''Traditional Silicon semiconductor material''\<rparr>)]"

definition material_properties_getitem :: "string \<Rightarrow> material_props outcome" where
  "material_properties_getitem name =
     (case map_of material_properties name of
        None \<Rightarrow> Raises (KeyError name)
      | Some props \<Rightarrow> Returns props)"

subsection \<open>The Varshni relation in double precision\<close>

text \<open>
  Where a property depends on rounding, \<^verbatim>\<open>bandgap_temp_dep\<close> is also modelled on IEEE
  doubles: a double is the real number it denotes, every literal and every result of
  \<^verbatim>\<open>+\<close>, \<^verbatim>\<open>-\<close>, \<^verbatim>\<open>*\<close>, \<^verbatim>\<open>/\<close> is rounded to the nearest number with a
  53-bit significand, ties to the even significand. The exponent is unbounded, so
  overflow and subnormal numbers are not represented.
\<close>

definition round_half_even :: "real \<Rightarrow> int" where
  "round_half_even x =
     (let n = \<lfloor>x\<rfloor>; r = x - of_int n
      in if r < 1 / 2 then n
         else if 1 / 2 < r then n + 1
         else if even n then n else n + 1)"

definition double_round :: "real \<Rightarrow> real" where
  "double_round x =
     (if x = 0 then 0
      else let e = \<lfloor>log 2 \<bar>x\<bar>\<rfloor>;
               ulp = 2 powr (of_int e - 52)
           in of_int (round_half_even (x / ulp)) * ulp)"

definition double_add :: "real \<Rightarrow> real \<Rightarrow> real" where
  "double_add x y = double_round (x + y)"

definition double_sub :: "real \<Rightarrow> real \<Rightarrow> real" where
  "double_sub x y = double_round (x - y)"

definition double_mul :: "real \<Rightarrow> real \<Rightarrow> real" where
  "double_mul x y = double_round (x * y)"

definition double_div :: "real \<Rightarrow> real \<Rightarrow> real outcome" where
  "double_div x y =
     (if y = 0 then Raises ZeroDivisionError else Returns (double_round (x / y)))"

text \<open>
  \<^verbatim>\<open>T_kelvin**2\<close> is the \<^verbatim>\<open>pow\<close> of the C library at the exponent 2. Its rounding is
  the library's own, so the squaring function is the parameter \<open>pow2\<close> of the model;
  the correctly rounded square is one such function.
\<close>

definition rounded_square :: "real \<Rightarrow> real" where
  "rounded_square x = double_round (x * x)"

text \<open>Lines 119 to 124 on doubles; \<^verbatim>\<open>beta = 830\<close> is an integer and converts exactly.\<close>

definition bandgap_temp_dep_realtime_double ::
  "(real \<Rightarrow> real) \<Rightarrow> real \<Rightarrow> real \<Rightarrow> real outcome" where
  "bandgap_temp_dep_realtime_double pow2 Eg_0 T_celsius =
     (let T_kelvin = double_add T_celsius (double_round 273.15);
          alpha = double_round 0.000909;
          beta = 830
      in obind (double_div (double_mul alpha (pow2 T_kelvin)) (double_add T_kelvin beta)) (\<lambda>q.
         Returns (double_sub Eg_0 q)))"

text \<open>Lines 777 to 789 on doubles.\<close>

definition bandgap_temp_dep_double ::
  "(real \<Rightarrow> real) \<Rightarrow> real \<Rightarrow> real \<Rightarrow> string \<Rightarrow> real outcome" where
  "bandgap_temp_dep_double pow2 Eg_0 T_celsius material =
     (let T_kelvin = double_add T_celsius (double_round 273.15);
          (alpha, beta) =
            (if material \<in> set [''GaN'', ''AlGaN''] then (double_round 0.000909, 830)
             else if material = ''SiC'' then (double_round 0.0003, 700)
             else (double_round 0.0005, 300))
      in obind (double_div (double_mul alpha (pow2 T_kelvin)) (double_add T_kelvin beta)) (\<lambda>q.
         Returns (double_sub Eg_0 q)))"

text \<open>The comparison \<^verbatim>\<open>a > b\<close> of two results, false unless both are floats.\<close>

fun exceeds :: "real outcome \<Rightarrow> real outcome \<Rightarrow> bool" where
  "exceeds (Returns x) (Returns y) = (y < x)"
| "exceeds (Returns x) ReturnsComplex = False"
| "exceeds (Returns x) (Raises e) = False"
| "exceeds ReturnsComplex b = False"
| "exceeds (Raises e) b = False"

section \<open>Properties\<close>

lemma float_pow_pos: "0 < x \<Longrightarrow> y \<noteq> 0 \<Longrightarrow> float_pow x y = Returns (x powr y)"
  by (simp add: float_pow_def)

lemma float_pow_half: "0 \<le> x \<Longrightarrow> float_pow x 0.5 = Returns (x powr 0.5)"
  by (simp add: float_pow_def)

lemma float_pow_complex: "x < 0 \<Longrightarrow> float_pow x 2.5 = ReturnsComplex"
  by (simp add: float_pow_def)

lemma sqrt2_bounds: "1.414 < sqrt 2" "sqrt 2 < 1.41425"
  by (rule real_less_rsqrt, simp add: power2_eq_square)
    (rule real_less_lsqrt, simp_all add: power2_eq_square)

lemma two_powr: "(2::real) powr 2.5 = 4 * sqrt 2"
proof -
  have "(2::real) powr 2.5 = 2 powr (2 + 1/2)" by simp
  also have "\<dots> = 2 powr 2 * 2 powr (1/2)" by (rule powr_add)
  also have "\<dots> = 4 * sqrt 2" by (simp add: powr_half_sqrt)
  finally show ?thesis .
qed

subsection \<open>Rounding to a double and its error\<close>

lemma round_half_even_error: "\<bar>of_int (round_half_even y) - y\<bar> \<le> 1 / 2"
proof -
  have "of_int \<lfloor>y\<rfloor> \<le> y" "y < of_int \<lfloor>y\<rfloor> + 1"
    by linarith+
  then show ?thesis
    by (auto simp: round_half_even_def Let_def)
qed

lemma double_round_error: "\<bar>double_round x - x\<bar> \<le> \<bar>x\<bar> / 2 ^ 53"
proof (cases "x = 0")
  case True
  then show ?thesis by (simp add: double_round_def)
next
  case False
  define e where "e = \<lfloor>log 2 \<bar>x\<bar>\<rfloor>"
  define u :: real where "u = 2 powr (of_int e - 52)"
  have upos: "0 < u" by (simp add: u_def)
  have "of_int e \<le> log 2 \<bar>x\<bar>" by (simp add: e_def)
  then have "2 powr (of_int e) \<le> 2 powr (log 2 \<bar>x\<bar>)"
    by simp
  then have lo: "2 powr (of_int e) \<le> \<bar>x\<bar>"
    using False by simp
  have u2: "u = 2 powr (of_int e) / 2 ^ 52"
    by (simp add: u_def powr_diff)
  have rd: "double_round x = of_int (round_half_even (x / u)) * u"
    using False by (simp add: double_round_def e_def u_def Let_def)
  have "double_round x - x = (of_int (round_half_even (x / u)) - x / u) * u"
    using upos by (simp add: rd algebra_simps)
  then have "\<bar>double_round x - x\<bar> = \<bar>of_int (round_half_even (x / u)) - x / u\<bar> * u"
    using upos by (simp add: abs_mult)
  also have "\<dots> \<le> (1 / 2) * u"
    using round_half_even_error [of "x / u"] upos by (intro mult_right_mono) simp_all
  also have "\<dots> = 2 powr (of_int e) / 2 ^ 53"
    by (simp add: u2)
  also have "\<dots> \<le> \<bar>x\<bar> / 2 ^ 53"
    using lo by (simp add: divide_right_mono)
  finally show ?thesis .
qed

lemma double_round_eval:
  fixes x :: real
  assumes "2 ^ k \<le> x" "x < 2 ^ Suc k" "k \<le> 52"
  shows "double_round x = of_int (round_half_even (x * 2 ^ (52 - k))) / 2 ^ (52 - k)"
proof -
  have "(0::real) < 2 ^ k" by simp
  with assms(1) have xpos: "0 < x" by linarith
  have "\<lfloor>log 2 x\<rfloor> = int k"
    using assms xpos by (subst floor_log_eq_powr_iff) (simp_all add: powr_realpow powr_add)
  moreover have "(2::real) powr (of_int (int k) - 52) = 1 / 2 ^ (52 - k)"
  proof -
    have "(2::real) powr (of_int (int k) - 52) = 2 powr (- real (52 - k))"
      using assms(3) by (simp add: of_nat_diff)
    also have "\<dots> = 1 / 2 ^ (52 - k)"
      by (simp add: powr_minus powr_realpow inverse_eq_divide)
    finally show ?thesis .
  qed
  ultimately show ?thesis
    using xpos by (simp add: double_round_def Let_def)
qed

lemma literal_273_15: "double_round 273.15 = 4805305618032230 / 2 ^ 44"
  using double_round_eval [of 8 "273.15"]
  by (simp add: round_half_even_def Let_def)

lemma kelvin_25: "double_add 25 (double_round 273.15) = 5245110269142630 / 2 ^ 44"
  unfolding double_add_def literal_273_15
  using double_round_eval [of 8 "25 + 4805305618032230 / 2 ^ 44"]
  by (simp add: round_half_even_def Let_def)

lemma kelvin_25_next: "double_add (25 + 1 / 2 ^ 48) (double_round 273.15) = 5245110269142630 / 2 ^ 44"
  unfolding double_add_def literal_273_15
  using double_round_eval [of 8 "25 + 1 / 2 ^ 48 + 4805305618032230 / 2 ^ 44"]
  by (simp add: round_half_even_def Let_def)

lemma next_is_double: "double_round (25 + 1 / 2 ^ 48) = 25 + 1 / 2 ^ 48"
  using double_round_eval [of 4 "25 + 1 / 2 ^ 48"]
  by (simp add: round_half_even_def Let_def)

lemma abs_prod_err:
  fixes x y x' y' :: real
  shows "\<bar>x' * y' - x * y\<bar> \<le> \<bar>x\<bar> * \<bar>y' - y\<bar> + \<bar>y'\<bar> * \<bar>x' - x\<bar>"
proof -
  have "x' * y' - x * y = x * (y' - y) + y' * (x' - x)"
    by (simp add: algebra_simps)
  then have "\<bar>x' * y' - x * y\<bar> \<le> \<bar>x * (y' - y)\<bar> + \<bar>y' * (x' - x)\<bar>"
    by (simp only: abs_triangle_ineq)
  then show ?thesis by (simp add: abs_mult)
qed

lemma abs_quot_err:
  fixes n d N D :: real
  assumes "0 < d" "0 < D"
  shows "\<bar>n / d - N / D\<bar> \<le> \<bar>n - N\<bar> / d + \<bar>N\<bar> * \<bar>D - d\<bar> / (d * D)"
proof -
  have "n / d - N / D = (n - N) / d + N * (D - d) / (d * D)"
    using assms by (simp add: field_simps)
  then have "\<bar>n / d - N / D\<bar> \<le> \<bar>(n - N) / d\<bar> + \<bar>N * (D - d) / (d * D)\<bar>"
    by (simp only: abs_triangle_ineq)
  then show ?thesis
    using assms by (simp add: abs_mult)
qed

text \<open>One evaluation: the computed quotient is within 3e-14 of the exact Varshni term.\<close>

lemma varshni_point:
  fixes a Tk s al al0 n be d q e :: real
  assumes e: "0 \<le> e" "e \<le> 1 / 10 ^ 15"
    and a: "223 \<le> a" "a \<le> 774"
    and al0: "3 / 10 ^ 4 \<le> al0" "al0 \<le> 1 / 10 ^ 3"
    and be: "300 \<le> be" "be \<le> 830"
    and Tk: "\<bar>Tk - a\<bar> \<le> \<bar>a\<bar> * e"
    and s: "\<bar>s - Tk\<^sup>2\<bar> \<le> Tk\<^sup>2 * e"
    and al: "\<bar>al - al0\<bar> \<le> \<bar>al0\<bar> * e"
    and n: "\<bar>n - al * s\<bar> \<le> \<bar>al * s\<bar> * e"
    and d: "\<bar>d - (Tk + be)\<bar> \<le> \<bar>Tk + be\<bar> * e"
    and q: "\<bar>q - n / d\<bar> \<le> \<bar>n / d\<bar> * e"
  shows "500 \<le> d" and "\<bar>q - al0 * a\<^sup>2 / (a + be)\<bar> \<le> 3 / 10 ^ 14" and "\<bar>q\<bar> \<le> 2"
proof -
  \<comment> \<open>the Kelvin temperature\<close>
  have "\<bar>a\<bar> * e \<le> 774 * (1 / 10 ^ 15)"
    using a e by (intro mult_mono) simp_all
  also have "\<dots> \<le> 1 / 10 ^ 12" by simp
  finally have Tk1: "\<bar>Tk - a\<bar> \<le> 1 / 10 ^ 12" using Tk by linarith
  have small: "(1::real) / 10 ^ 12 \<le> 1" by simp
  have Tk2: "222 \<le> Tk" "Tk \<le> 775" using Tk1 a small by linarith+
  \<comment> \<open>its square\<close>
  have sq: "Tk\<^sup>2 \<le> 775\<^sup>2"
    using Tk2 by (intro power_mono) simp_all
  have "Tk\<^sup>2 * e \<le> 775\<^sup>2 * (1 / 10 ^ 15)"
    using sq e by (intro mult_mono) simp_all
  also have "\<dots> \<le> 1 / 10 ^ 9" by simp
  finally have s1: "\<bar>s - Tk\<^sup>2\<bar> \<le> 1 / 10 ^ 9" using s by linarith
  have "Tk\<^sup>2 - a\<^sup>2 = (Tk - a) * (Tk + a)"
    by (simp add: power2_eq_square algebra_simps)
  then have "\<bar>Tk\<^sup>2 - a\<^sup>2\<bar> = \<bar>Tk - a\<bar> * \<bar>Tk + a\<bar>"
    by (simp add: abs_mult)
  also have "\<dots> \<le> (1 / 10 ^ 12) * 1549"
    using Tk1 Tk2 a by (intro mult_mono) simp_all
  also have "\<dots> \<le> 2 / 10 ^ 9" by simp
  finally have s0: "\<bar>Tk\<^sup>2 - a\<^sup>2\<bar> \<le> 2 / 10 ^ 9" .
  have "(1::real) / 10 ^ 9 + 2 / 10 ^ 9 = 3 / 10 ^ 9" by simp
  with s1 s0 have s2: "\<bar>s - a\<^sup>2\<bar> \<le> 3 / 10 ^ 9" by linarith
  have a2: "0 \<le> a\<^sup>2" "a\<^sup>2 \<le> 774\<^sup>2"
    using a by (simp, intro power_mono, simp_all)
  have "(774::real)\<^sup>2 + 3 / 10 ^ 9 \<le> 600000" by simp
  moreover have "(3::real) / 10 ^ 9 \<le> 223\<^sup>2" by simp
  moreover have "(223::real)\<^sup>2 \<le> a\<^sup>2" using a by (intro power_mono) simp_all
  ultimately have s3: "0 \<le> s" "s \<le> 600000"
    using s2 a2 by linarith+
  then have s4: "\<bar>s\<bar> \<le> 600000" by simp
  \<comment> \<open>the numerator\<close>
  have "\<bar>al0\<bar> * e \<le> (1 / 10 ^ 3) * (1 / 10 ^ 15)"
    using al0 e by (intro mult_mono) simp_all
  also have "\<dots> = 1 / 10 ^ 18" by simp
  finally have al1: "\<bar>al - al0\<bar> \<le> 1 / 10 ^ 18" using al by linarith
  have "(1::real) / 10 ^ 3 + 1 / 10 ^ 18 \<le> 2 / 10 ^ 3" by simp
  moreover have "(1::real) / 10 ^ 18 \<le> 3 / 10 ^ 4" by simp
  ultimately have al2: "0 \<le> al" "al \<le> 2 / 10 ^ 3"
    using al1 al0 by linarith+
  have "\<bar>al * s - al0 * a\<^sup>2\<bar> \<le> \<bar>al0\<bar> * \<bar>s - a\<^sup>2\<bar> + \<bar>s\<bar> * \<bar>al - al0\<bar>"
    using abs_prod_err [of al s al0 "a\<^sup>2"] by simp
  also have "\<dots> \<le> (1 / 10 ^ 3) * (3 / 10 ^ 9) + 600000 * (1 / 10 ^ 18)"
    using al0 s2 s4 al1 by (intro add_mono mult_mono) simp_all
  also have "\<dots> \<le> 4 / 10 ^ 12" by simp
  finally have n0: "\<bar>al * s - al0 * a\<^sup>2\<bar> \<le> 4 / 10 ^ 12" .
  have "\<bar>al * s\<bar> = al * s" using al2 s3 by simp
  also have "\<dots> \<le> (2 / 10 ^ 3) * 600000"
    using al2 s3 by (intro mult_mono) simp_all
  also have "\<dots> = 1200" by simp
  finally have "\<bar>al * s\<bar> * e \<le> 1200 * (1 / 10 ^ 15)"
    using e by (intro mult_mono) simp_all
  also have "\<dots> \<le> 2 / 10 ^ 12" by simp
  finally have n1: "\<bar>n - al * s\<bar> \<le> 2 / 10 ^ 12" using n by linarith
  have "(4::real) / 10 ^ 12 + 2 / 10 ^ 12 = 6 / 10 ^ 12" by simp
  with n0 n1 have n2: "\<bar>n - al0 * a\<^sup>2\<bar> \<le> 6 / 10 ^ 12" by linarith
  have N0: "0 \<le> al0 * a\<^sup>2" using al0 by simp
  have "al0 * a\<^sup>2 \<le> (1 / 10 ^ 3) * 774\<^sup>2"
    using al0 a2 by (intro mult_mono) simp_all
  also have "\<dots> \<le> 600" by simp
  finally have N1: "al0 * a\<^sup>2 \<le> 600" .
  have N2: "\<bar>al0 * a\<^sup>2\<bar> \<le> 600" using N0 N1 by simp
  \<comment> \<open>the denominator\<close>
  have "\<bar>Tk + be\<bar> * e \<le> 1605 * (1 / 10 ^ 15)"
    using Tk2 be e by (intro mult_mono) simp_all
  also have "\<dots> \<le> 2 / 10 ^ 12" by simp
  finally have d1: "\<bar>d - (Tk + be)\<bar> \<le> 2 / 10 ^ 12" using d by linarith
  have "(2::real) / 10 ^ 12 + 1 / 10 ^ 12 = 3 / 10 ^ 12" by simp
  with d1 Tk1 have d2: "\<bar>(a + be) - d\<bar> \<le> 3 / 10 ^ 12" by linarith
  have "(3::real) / 10 ^ 12 \<le> 1" by simp
  with d2 a be show d3: "500 \<le> d" by linarith
  have D: "523 \<le> a + be" using a be by linarith
  \<comment> \<open>the quotient\<close>
  have dpos: "0 < d" and Dpos: "0 < a + be" using d3 D by linarith+
  have t1: "\<bar>n - al0 * a\<^sup>2\<bar> / d \<le> (6 / 10 ^ 12) / 500"
    using n2 d3 by (intro frac_le) simp_all
  have "\<bar>al0 * a\<^sup>2\<bar> * \<bar>(a + be) - d\<bar> \<le> 600 * (3 / 10 ^ 12)"
    using N2 d2 by (intro mult_mono) simp_all
  moreover have "500 * 523 \<le> d * (a + be)"
    using d3 D by (intro mult_mono) simp_all
  ultimately have t2: "\<bar>al0 * a\<^sup>2\<bar> * \<bar>(a + be) - d\<bar> / (d * (a + be)) \<le> 600 * (3 / 10 ^ 12) / (500 * 523)"
    by (intro frac_le) simp_all
  have "\<bar>n / d - al0 * a\<^sup>2 / (a + be)\<bar>
        \<le> \<bar>n - al0 * a\<^sup>2\<bar> / d + \<bar>al0 * a\<^sup>2\<bar> * \<bar>(a + be) - d\<bar> / (d * (a + be))"
    using dpos Dpos by (rule abs_quot_err)
  also have "\<dots> \<le> (6 / 10 ^ 12) / 500 + 600 * (3 / 10 ^ 12) / (500 * 523)"
    using t1 t2 by (rule add_mono)
  also have "\<dots> \<le> 2 / 10 ^ 14" by simp
  finally have q0: "\<bar>n / d - al0 * a\<^sup>2 / (a + be)\<bar> \<le> 2 / 10 ^ 14" .
  have "al0 * a\<^sup>2 / (a + be) \<le> 600 / 523"
    using N0 N1 D by (intro frac_le) simp_all
  moreover have "0 \<le> al0 * a\<^sup>2 / (a + be)"
    using N0 Dpos by simp
  moreover have "(600::real) / 523 + 2 / 10 ^ 14 \<le> 3 / 2" by simp
  ultimately have q1: "\<bar>n / d\<bar> \<le> 3 / 2" using q0 by linarith
  have "\<bar>n / d\<bar> * e \<le> (3 / 2) * (1 / 10 ^ 15)"
    using q1 e by (intro mult_mono) simp_all
  also have "\<dots> \<le> 1 / 10 ^ 14" by simp
  finally have q2: "\<bar>q - n / d\<bar> \<le> 1 / 10 ^ 14" using q by linarith
  have "(2::real) / 10 ^ 14 + 1 / 10 ^ 14 = 3 / 10 ^ 14" by simp
  with q0 q2 show "\<bar>q - al0 * a\<^sup>2 / (a + be)\<bar> \<le> 3 / 10 ^ 14" by linarith
  have "(3::real) / 2 + 1 / 10 ^ 14 \<le> 2" by simp
  with q1 q2 show "\<bar>q\<bar> \<le> 2" by linarith
qed

lemma double_round_rel: "\<bar>double_round x - x\<bar> \<le> \<bar>x\<bar> * (1 / 2 ^ 52)"
proof -
  have "\<bar>x\<bar> / 2 ^ 53 \<le> \<bar>x\<bar> * (1 / 2 ^ 52)" by simp
  with double_round_error [of x] show ?thesis by linarith
qed

lemma varshni_gap:
  fixes a b al0 be :: real
  assumes a: "223 \<le> a" "a \<le> b"
    and al0: "0 \<le> al0"
    and be: "300 \<le> be" "be \<le> 830"
  shows "al0 * (b - a) / 20 \<le> al0 * b\<^sup>2 / (b + be) - al0 * a\<^sup>2 / (a + be)"
proof -
  have pa: "0 < a + be" and pb: "0 < b + be" using a be by linarith+
  define m where "m = a * b + be * (a + b)"
  have den: "(a + be) * (b + be) = m + be * be"
    by (simp add: m_def algebra_simps)
  have "0 \<le> a * b" using a by simp
  moreover have "be * 830 \<le> be * (19 * (a + b))"
    using a be by (intro mult_left_mono) simp_all
  moreover have "be * be \<le> be * 830"
    using be by (intro mult_left_mono) simp_all
  ultimately have "be * be \<le> 19 * m"
    by (simp add: m_def algebra_simps)
  then have ratio: "(a + be) * (b + be) \<le> 20 * m"
    using den by linarith
  have mpos: "0 \<le> m" using a be by (simp add: m_def)
  have id: "b\<^sup>2 / (b + be) - a\<^sup>2 / (a + be) = (b - a) * m / ((a + be) * (b + be))"
    using pa pb by (simp add: m_def field_simps power2_eq_square)
  define Dn where "Dn = (a + be) * (b + be)"
  have Dn: "0 < Dn" using pa pb by (simp add: Dn_def)
  have "(b - a) * Dn \<le> (b - a) * (20 * m)"
    using ratio a unfolding Dn_def by (intro mult_left_mono) simp_all
  then have "(b - a) / 20 * Dn \<le> (b - a) * m"
    by simp
  then have "(b - a) / 20 \<le> (b - a) * m / Dn"
    using Dn by (simp only: pos_le_divide_eq)
  then have "(b - a) / 20 \<le> (b - a) * m / ((a + be) * (b + be))"
    by (simp only: Dn_def)
  then have "(b - a) / 20 \<le> b\<^sup>2 / (b + be) - a\<^sup>2 / (a + be)"
    using id by simp
  then have "al0 * ((b - a) / 20) \<le> al0 * (b\<^sup>2 / (b + be) - a\<^sup>2 / (a + be))"
    using al0 by (rule mult_left_mono)
  then show ?thesis by (simp add: algebra_simps)
qed

lemma varshni_strict:
  fixes a1 a2 al0 be Eg q1 q2 r1 r2 e :: real
  assumes e: "0 \<le> e" "e \<le> 1 / 10 ^ 15"
    and a: "223 \<le> a1" "a1 + 1 / 10 ^ 6 \<le> a2"
    and al0: "3 / 10 ^ 4 \<le> al0"
    and be: "300 \<le> be" "be \<le> 830"
    and Eg: "\<bar>Eg\<bar> \<le> 100"
    and q1: "\<bar>q1 - al0 * a1\<^sup>2 / (a1 + be)\<bar> \<le> 3 / 10 ^ 14" "\<bar>q1\<bar> \<le> 2"
    and q2: "\<bar>q2 - al0 * a2\<^sup>2 / (a2 + be)\<bar> \<le> 3 / 10 ^ 14" "\<bar>q2\<bar> \<le> 2"
    and r1: "\<bar>r1 - (Eg - q1)\<bar> \<le> \<bar>Eg - q1\<bar> * e"
    and r2: "\<bar>r2 - (Eg - q2)\<bar> \<le> \<bar>Eg - q2\<bar> * e"
  shows "r2 < r1"
proof -
  have le: "a1 \<le> a2" using a by simp
  have al0': "0 \<le> al0" using al0 by simp
  have gap: "al0 * (a2 - a1) / 20 \<le> al0 * a2\<^sup>2 / (a2 + be) - al0 * a1\<^sup>2 / (a1 + be)"
    using a(1) le al0' be by (rule varshni_gap)
  have "(3 / 10 ^ 4) * (1 / 10 ^ 6) \<le> al0 * (a2 - a1)"
    using al0 a by (intro mult_mono) simp_all
  then have "(3 / 10 ^ 4) * (1 / 10 ^ 6) / 20 \<le> al0 * (a2 - a1) / 20"
    by simp
  moreover have "(1::real) / 10 ^ 11 \<le> (3 / 10 ^ 4) * (1 / 10 ^ 6) / 20" by simp
  ultimately have gap': "1 / 10 ^ 11 \<le> al0 * a2\<^sup>2 / (a2 + be) - al0 * a1\<^sup>2 / (a1 + be)"
    using gap by linarith
  have b1: "\<bar>Eg - q1\<bar> \<le> 102" and b2: "\<bar>Eg - q2\<bar> \<le> 102"
    using Eg q1(2) q2(2) by linarith+
  have "\<bar>Eg - q1\<bar> * e \<le> 102 * (1 / 10 ^ 15)"
    using b1 e by (intro mult_mono) simp_all
  also have "\<dots> \<le> 2 / 10 ^ 13" by simp
  finally have e1: "\<bar>r1 - (Eg - q1)\<bar> \<le> 2 / 10 ^ 13" using r1 by linarith
  have "\<bar>Eg - q2\<bar> * e \<le> 102 * (1 / 10 ^ 15)"
    using b2 e by (intro mult_mono) simp_all
  also have "\<dots> \<le> 2 / 10 ^ 13" by simp
  finally have e2: "\<bar>r2 - (Eg - q2)\<bar> \<le> 2 / 10 ^ 13" using r2 by linarith
  define F1 where "F1 = al0 * a1\<^sup>2 / (a1 + be)"
  define F2 where "F2 = al0 * a2\<^sup>2 / (a2 + be)"
  define x :: real where "x = 1 / 10 ^ 14"
  have x1: "1000 * x = 1 / 10 ^ 11" and x2: "3 * x = 3 / 10 ^ 14" and x3: "20 * x = 2 / 10 ^ 13"
    by (simp_all add: x_def)
  have c1: "F1 + 1000 * x \<le> F2"
    using gap' unfolding F1_def F2_def x1 by linarith
  have c2: "\<bar>q1 - F1\<bar> \<le> 3 * x" "\<bar>q2 - F2\<bar> \<le> 3 * x"
    using q1(1) q2(1) unfolding F1_def F2_def x2 by linarith+
  have c3: "\<bar>r1 - (Eg - q1)\<bar> \<le> 20 * x" "\<bar>r2 - (Eg - q2)\<bar> \<le> 20 * x"
    using e1 e2 unfolding x3 by linarith+
  have c4: "0 < x" by (simp add: x_def)
  show ?thesis
    using c1 c2 c3 c4 by linarith
qed

lemma rounded_square_accurate: "\<bar>rounded_square x - x\<^sup>2\<bar> \<le> x\<^sup>2 / 2 ^ 52"
proof -
  have "\<bar>double_round (x * x) - x * x\<bar> \<le> \<bar>x * x\<bar> * (1 / 2 ^ 52)"
    by (rule double_round_rel)
  then show ?thesis
    by (simp add: rounded_square_def power2_eq_square)
qed

lemma varshni_double_core:
  fixes pow2 :: "real \<Rightarrow> real"
  assumes pw: "\<And>x. \<bar>pow2 x - x\<^sup>2\<bar> \<le> x\<^sup>2 / 2 ^ 52"
    and T: "- 50 \<le> T1" "T1 + 1 / 10 ^ 6 \<le> T2" "T2 \<le> 500"
    and Eg: "\<bar>Eg_0\<bar> \<le> 100"
    and al0: "3 / 10 ^ 4 \<le> al0" "al0 \<le> 1 / 10 ^ 3"
    and be: "300 \<le> be" "be \<le> 830"
  shows "exceeds
     (obind (double_div (double_mul (double_round al0)
                (pow2 (double_add T1 (double_round 273.15))))
              (double_add (double_add T1 (double_round 273.15)) be))
        (\<lambda>q. Returns (double_sub Eg_0 q)))
     (obind (double_div (double_mul (double_round al0)
                (pow2 (double_add T2 (double_round 273.15))))
              (double_add (double_add T2 (double_round 273.15)) be))
        (\<lambda>q. Returns (double_sub Eg_0 q)))"
proof -
  define e :: real where "e = 1 / 2 ^ 52"
  have e: "0 \<le> e" "e \<le> 1 / 10 ^ 15" by (simp_all add: e_def)
  have rel: "\<bar>double_round x - x\<bar> \<le> \<bar>x\<bar> * e" for x
    unfolding e_def by (rule double_round_rel)
  define c where "c = double_round 273.15"
  define k :: real where "k = 273.15"
  have k: "273 + 1 / 100 \<le> k" "k + 1 / 100 \<le> 274" "\<bar>k\<bar> * e \<le> 1 / 100"
    by (simp_all add: k_def e_def)
  have "\<bar>c - k\<bar> \<le> \<bar>k\<bar> * e"
    unfolding c_def k_def by (rule rel)
  with k have c: "273 \<le> c" "c \<le> 274"
    by linarith+
  define a1 where "a1 = T1 + c"
  define a2 where "a2 = T2 + c"
  have T12: "T1 \<le> T2" using T(2) by simp
  have a: "223 \<le> a1" "a1 \<le> 774" "223 \<le> a2" "a2 \<le> 774" "a1 + 1 / 10 ^ 6 \<le> a2"
    using T T12 c unfolding a1_def a2_def by linarith+
  define al where "al = double_round al0"
  have al: "\<bar>al - al0\<bar> \<le> \<bar>al0\<bar> * e"
    unfolding al_def by (rule rel)
  have pw': "\<bar>pow2 x - x\<^sup>2\<bar> \<le> x\<^sup>2 * e" for x
    using pw [of x] by (simp add: e_def)
  define Tk1 where "Tk1 = double_round a1"
  define d1 where "d1 = double_round (Tk1 + be)"
  define n1 where "n1 = double_round (al * pow2 Tk1)"
  define q1 where "q1 = double_round (n1 / d1)"
  define r1 where "r1 = double_round (Eg_0 - q1)"
  define Tk2 where "Tk2 = double_round a2"
  define d2 where "d2 = double_round (Tk2 + be)"
  define n2 where "n2 = double_round (al * pow2 Tk2)"
  define q2 where "q2 = double_round (n2 / d2)"
  define r2 where "r2 = double_round (Eg_0 - q2)"
  have p1: "500 \<le> d1" "\<bar>q1 - al0 * a1\<^sup>2 / (a1 + be)\<bar> \<le> 3 / 10 ^ 14" "\<bar>q1\<bar> \<le> 2"
    using varshni_point [OF e a(1,2) al0 be, of Tk1 "pow2 Tk1" al n1 d1 q1]
      rel [of a1] pw' [of Tk1] al rel [of "al * pow2 Tk1"] rel [of "Tk1 + be"] rel [of "n1 / d1"]
    unfolding Tk1_def [symmetric] n1_def [symmetric] d1_def [symmetric] q1_def [symmetric]
    by blast+
  have p2: "500 \<le> d2" "\<bar>q2 - al0 * a2\<^sup>2 / (a2 + be)\<bar> \<le> 3 / 10 ^ 14" "\<bar>q2\<bar> \<le> 2"
    using varshni_point [OF e a(3,4) al0 be, of Tk2 "pow2 Tk2" al n2 d2 q2]
      rel [of a2] pw' [of Tk2] al rel [of "al * pow2 Tk2"] rel [of "Tk2 + be"] rel [of "n2 / d2"]
    unfolding Tk2_def [symmetric] n2_def [symmetric] d2_def [symmetric] q2_def [symmetric]
    by blast+
  have lt: "r2 < r1"
    using e a(1,5) al0(1) be Eg p1(2,3) p2(2,3) rel [of "Eg_0 - q1"] rel [of "Eg_0 - q2"]
    unfolding r1_def [symmetric] r2_def [symmetric]
    by (rule varshni_strict)
  have nz: "d1 \<noteq> 0" "d2 \<noteq> 0" using p1(1) p2(1) by simp_all
  have v1: "obind (double_div (double_mul (double_round al0)
                (pow2 (double_add T1 (double_round 273.15))))
              (double_add (double_add T1 (double_round 273.15)) be))
        (\<lambda>q. Returns (double_sub Eg_0 q)) = Returns r1"
    using nz(1)
    by (simp add: double_div_def double_mul_def double_add_def double_sub_def
        r1_def q1_def n1_def d1_def Tk1_def a1_def al_def c_def)
  have v2: "obind (double_div (double_mul (double_round al0)
                (pow2 (double_add T2 (double_round 273.15))))
              (double_add (double_add T2 (double_round 273.15)) be))
        (\<lambda>q. Returns (double_sub Eg_0 q)) = Returns r2"
    using nz(2)
    by (simp add: double_div_def double_mul_def double_add_def double_sub_def
        r2_def q2_def n2_def d2_def Tk2_def a2_def al_def c_def)
  show ?thesis
    unfolding v1 v2 using lt by simp
qed

subsection \<open>Properties of the operations\<close>

text \<open>
  C1. For a temperature above absolute zero (\<open>T_celsius > -273.15\<close>) the mobility
  operation returns \<open>mu_0 * (300 / T_kelvin) ^ n\<close> with \<open>T_kelvin = T_celsius + 273.15\<close>,
  where \<open>n\<close> is 1.5 for GaN and AlGaN, 2.0 for SiC and 1.7 for every other material
  name; the version without a material argument is the GaN case. The base mobility
  may be any number.
\<close>

theorem mobility_formula:
  assumes "- 273.15 < T_celsius"
  shows "mobility_temp_dep mu_0 T_celsius material =
           Returns (mu_0 * (300 / (T_celsius + 273.15)) powr
             (if material = ''GaN'' \<or> material = ''AlGaN'' then 1.5
              else if material = ''SiC'' then 2.0 else 1.7))
         \<and> mobility_temp_dep_realtime mu_0 T_celsius =
           Returns (mu_0 * (300 / (T_celsius + 273.15)) powr 1.5)"
proof -
  have pos: "0 < 300 / (T_celsius + 273.15)"
    using assms by simp
  have nz: "T_celsius + 273.15 \<noteq> 0"
    using assms by simp
  show ?thesis
    using nz float_pow_pos [OF pos]
    by (simp add: mobility_temp_dep_def mobility_temp_dep_realtime_def float_div_def)
qed

theorem mobility_formula_witness:
  "mobility_temp_dep 1500 26.85 ''GaN'' = Returns 1500
   \<and> mobility_temp_dep 900 (- 123.15) ''SiC'' = Returns 3600
   \<and> mobility_temp_dep 1400 26.85 ''Si'' = Returns 1400
   \<and> mobility_temp_dep_realtime 1500 26.85 = Returns 1500"
  using mobility_formula [of "26.85" 1500 "''GaN''"]
    mobility_formula [of "- 123.15" 900 "''SiC''"]
    mobility_formula [of "26.85" 1400 "''Si''"]
  by simp

text \<open>
  C2. For a temperature above absolute zero the bandgap operation returns the Varshni
  value \<open>Eg_0 - alpha * T_k\<^sup>2 / (T_k + beta)\<close> with \<open>T_k = T_celsius + 273.15\<close>, where
  \<open>(alpha, beta)\<close> is \<open>(9.09e-4, 830)\<close> for GaN and AlGaN, \<open>(3.0e-4, 700)\<close> for SiC and
  \<open>(5.0e-4, 300)\<close> for every other material name; the version without a material
  argument uses the GaN constants. The value is not clamped at 0: for every material
  some positive base bandgap and admissible temperature give a negative result.
\<close>

theorem bandgap_formula:
  assumes "- 273.15 < T_celsius"
  shows "bandgap_temp_dep Eg_0 T_celsius material =
           Returns (Eg_0 -
             (if material = ''GaN'' \<or> material = ''AlGaN'' then 0.000909
              else if material = ''SiC'' then 0.0003 else 0.0005)
             * (T_celsius + 273.15)\<^sup>2
             / (T_celsius + 273.15 +
                (if material = ''GaN'' \<or> material = ''AlGaN'' then 830
                 else if material = ''SiC'' then 700 else 300)))
         \<and> bandgap_temp_dep_realtime Eg_0 T_celsius =
           Returns (Eg_0 - 0.000909 * (T_celsius + 273.15)\<^sup>2 / (T_celsius + 273.15 + 830))
         \<and> (\<exists>E T v. 0 < E \<and> - 273.15 < T
               \<and> bandgap_temp_dep E T material = Returns v \<and> v < 0)"
proof -
  define v :: real where
    "v = (if material = ''GaN'' \<or> material = ''AlGaN'' then 0.01 - 81.81 / 1130
          else if material = ''SiC'' then - 0.017 else - 0.065)"
  have val: "bandgap_temp_dep 0.01 26.85 material = Returns v"
    by (simp add: v_def bandgap_temp_dep_def float_div_def)
  have neg: "v < 0"
    by (simp add: v_def)
  have dom: "(0::real) < 0.01" "- 273.15 < (26.85::real)"
    by simp_all
  from dom val neg
  have unclamped: "\<exists>E T v. 0 < E \<and> - 273.15 < T
      \<and> bandgap_temp_dep E T material = Returns v \<and> v < 0"
    by blast
  have "bandgap_temp_dep Eg_0 T_celsius material =
           Returns (Eg_0 -
             (if material = ''GaN'' \<or> material = ''AlGaN'' then 0.000909
              else if material = ''SiC'' then 0.0003 else 0.0005)
             * (T_celsius + 273.15)\<^sup>2
             / (T_celsius + 273.15 +
                (if material = ''GaN'' \<or> material = ''AlGaN'' then 830
                 else if material = ''SiC'' then 700 else 300)))"
    using assms by (simp add: bandgap_temp_dep_def float_div_def)
  moreover have "bandgap_temp_dep_realtime Eg_0 T_celsius =
           Returns (Eg_0 - 0.000909 * (T_celsius + 273.15)\<^sup>2 / (T_celsius + 273.15 + 830))"
    using assms by (simp add: bandgap_temp_dep_realtime_def float_div_def)
  ultimately show ?thesis
    using unclamped by blast
qed

theorem bandgap_formula_witness:
  "bandgap_temp_dep 3.4 26.85 ''GaN'' = Returns (3.4 - 0.000909 * 90000 / 1130)
   \<and> bandgap_temp_dep 0.01 26.85 ''SiC'' = Returns (- 0.017)
   \<and> bandgap_temp_dep 0.01 26.85 ''Si'' = Returns (- 0.065)
   \<and> bandgap_temp_dep_realtime 3.4 26.85 = Returns (3.4 - 0.000909 * 90000 / 1130)"
  using bandgap_formula [of "26.85" "3.4" "''GaN''"]
    bandgap_formula [of "26.85" "0.01" "''SiC''"]
    bandgap_formula [of "26.85" "0.01" "''Si''"]
  by simp

text \<open>
  C8, as stated, fails on doubles: 25 and the next double above it are two temperatures
  in \<open>[-50, 500]\<close> for which \<^verbatim>\<open>T_celsius + 273.15\<close> rounds to the same double, so the
  bandgap at the lower one is equal to, not greater than, the bandgap at the higher one.
\<close>

theorem bandgap_equal_at_adjacent_doubles:
  "(- 50 :: real) \<le> 25 \<and> (25 :: real) < 25 + 1 / 2 ^ 48 \<and> (25 :: real) + 1 / 2 ^ 48 \<le> 500
   \<and> double_round (25 + 1 / 2 ^ 48) = 25 + 1 / 2 ^ 48
   \<and> bandgap_temp_dep_realtime_double rounded_square 3.5 (25 + 1 / 2 ^ 48)
       = bandgap_temp_dep_realtime_double rounded_square 3.5 25
   \<and> \<not> exceeds (bandgap_temp_dep_realtime_double rounded_square 3.5 25)
         (bandgap_temp_dep_realtime_double rounded_square 3.5 (25 + 1 / 2 ^ 48))"
proof -
  have eq: "bandgap_temp_dep_realtime_double rounded_square 3.5 (25 + 1 / 2 ^ 48)
       = bandgap_temp_dep_realtime_double rounded_square 3.5 25"
    unfolding bandgap_temp_dep_realtime_double_def kelvin_25 kelvin_25_next ..
  have irr: "\<not> exceeds r r" for r :: "real outcome"
    by (cases r) simp_all
  show ?thesis
    using eq irr [of "bandgap_temp_dep_realtime_double rounded_square 3.5 25"] next_is_double
    by simp
qed

text \<open>
  C8, amended. In double precision, with \<^verbatim>\<open>T_kelvin**2\<close> accurate to a relative error
  of \<open>2^-52\<close>, the bandgap operation is strictly decreasing across temperatures of
  \<open>[-50, 500]\<close> degrees Celsius that are at least \<open>1e-6\<close> apart, for every material name
  and every base bandgap of magnitude at most 100; the same holds for the version
  without a material argument.
\<close>

theorem bandgap_decreasing_double:
  assumes "\<And>x. \<bar>pow2 x - x\<^sup>2\<bar> \<le> x\<^sup>2 / 2 ^ 52"
    and "- 50 \<le> T1" "T1 + 1 / 10 ^ 6 \<le> T2" "T2 \<le> 500"
    and "\<bar>Eg_0\<bar> \<le> 100"
  shows "exceeds (bandgap_temp_dep_double pow2 Eg_0 T1 material)
           (bandgap_temp_dep_double pow2 Eg_0 T2 material)
         \<and> exceeds (bandgap_temp_dep_realtime_double pow2 Eg_0 T1)
           (bandgap_temp_dep_realtime_double pow2 Eg_0 T2)"
proof -
  have core: "exceeds
     (obind (double_div (double_mul (double_round al0)
                (pow2 (double_add T1 (double_round 273.15))))
              (double_add (double_add T1 (double_round 273.15)) be))
        (\<lambda>q. Returns (double_sub Eg_0 q)))
     (obind (double_div (double_mul (double_round al0)
                (pow2 (double_add T2 (double_round 273.15))))
              (double_add (double_add T2 (double_round 273.15)) be))
        (\<lambda>q. Returns (double_sub Eg_0 q)))"
    if "3 / 10 ^ 4 \<le> al0" "al0 \<le> 1 / 10 ^ 3" "300 \<le> be" "be \<le> 830" for al0 be
    using assms that by (rule varshni_double_core)
  have gan: "(3::real) / 10 ^ 4 \<le> 0.000909" "(0.000909::real) \<le> 1 / 10 ^ 3"
    and sic: "(3::real) / 10 ^ 4 \<le> 0.0003" "(0.0003::real) \<le> 1 / 10 ^ 3"
    and oth: "(3::real) / 10 ^ 4 \<le> 0.0005" "(0.0005::real) \<le> 1 / 10 ^ 3"
    by simp_all
  have b830: "(300::real) \<le> 830" "(830::real) \<le> 830"
    and b700: "(300::real) \<le> 700" "(700::real) \<le> 830"
    and b300: "(300::real) \<le> 300" "(300::real) \<le> 830"
    by simp_all
  note c1 = core [OF gan b830] and c2 = core [OF sic b700] and c3 = core [OF oth b300]
  have "exceeds (bandgap_temp_dep_double pow2 Eg_0 T1 material)
           (bandgap_temp_dep_double pow2 Eg_0 T2 material)"
    unfolding bandgap_temp_dep_double_def Let_def
    using c1 c2 c3 by (simp del: exceeds.simps)
  moreover have "exceeds (bandgap_temp_dep_realtime_double pow2 Eg_0 T1)
           (bandgap_temp_dep_realtime_double pow2 Eg_0 T2)"
    unfolding bandgap_temp_dep_realtime_double_def Let_def
    using c1 by (simp del: exceeds.simps)
  ultimately show ?thesis by simp
qed

theorem bandgap_decreasing_double_witness:
  "exceeds (bandgap_temp_dep_double rounded_square 3.5 25 ''SiC'')
           (bandgap_temp_dep_double rounded_square 3.5 300 ''SiC'')
   \<and> exceeds (bandgap_temp_dep_realtime_double rounded_square 3.5 25)
           (bandgap_temp_dep_realtime_double rounded_square 3.5 300)"
  using bandgap_decreasing_double [of rounded_square 25 300 "3.5" "''SiC''"]
    rounded_square_accurate
  by simp

text \<open>
  C5. For a positive bandgap the breakdown-voltage operation returns
  \<open>350 * (Eg / 3.4) ^ 2.5 * (thickness / 2e-6)\<close>, for any thickness. Doubling the
  bandgap at a fixed thickness multiplies the result by \<open>2 ^ 2.5\<close>, a number between
  5.656 and 5.657.
\<close>

theorem breakdown_formula:
  assumes "0 < Eg"
  shows "breakdown_voltage_model Eg thickness =
           Returns (350 * (Eg / 3.4) powr 2.5 * (thickness / 0.000002))
         \<and> breakdown_voltage_model (2 * Eg) thickness =
           Returns (2 powr 2.5 * (350 * (Eg / 3.4) powr 2.5 * (thickness / 0.000002)))
         \<and> 5.656 < (2::real) powr 2.5 \<and> (2::real) powr 2.5 < 5.657"
proof -
  have pos: "0 < Eg / 3.4" "0 < 2 * Eg / 3.4"
    using assms by simp_all
  have "(2 * Eg / 3.4) powr 2.5 = (2 * (Eg / 3.4)) powr 2.5"
    by simp
  also have "\<dots> = 2 powr 2.5 * (Eg / 3.4) powr 2.5"
    by (rule powr_mult)
  finally have dbl: "(2 * Eg / 3.4) powr 2.5 = 2 powr 2.5 * (Eg / 3.4) powr 2.5" .
  have "breakdown_voltage_model Eg thickness =
           Returns (350 * (Eg / 3.4) powr 2.5 * (thickness / 0.000002))"
    using float_pow_pos [OF pos(1), of "2.5"] by (simp add: breakdown_voltage_model_def)
  moreover have "breakdown_voltage_model (2 * Eg) thickness =
           Returns (2 powr 2.5 * (350 * (Eg / 3.4) powr 2.5 * (thickness / 0.000002)))"
    using float_pow_pos [OF pos(2), of "2.5"] dbl by (simp add: breakdown_voltage_model_def)
  moreover have "5.656 < (2::real) powr 2.5" "(2::real) powr 2.5 < 5.657"
    using sqrt2_bounds unfolding two_powr by simp_all
  ultimately show ?thesis by simp
qed

theorem breakdown_formula_witness:
  "breakdown_voltage_model 3.4 thickness_default = Returns 350
   \<and> breakdown_voltage_model 6.8 thickness_default = Returns (2 powr 2.5 * 350)"
  using breakdown_formula [of "3.4" thickness_default] by (simp add: thickness_default_def)

text \<open>
  C7, as stated, fails: at the non-positive bandgap \<open>Eg = 0\<close> the breakdown-voltage
  operation raises nothing and returns the number 0.
\<close>

theorem breakdown_zero_bandgap_returns:
  "(0::real) \<le> 0 \<and> breakdown_voltage_model 0 thickness_default = Returns 0
   \<and> \<not> raises (breakdown_voltage_model 0 thickness_default)"
  by (simp add: breakdown_voltage_model_def float_pow_def)

text \<open>
  C7, amended. For a non-positive bandgap the breakdown-voltage operation raises no
  error: it returns 0 for \<open>Eg = 0\<close>, and for \<open>Eg < 0\<close> the power
  \<^verbatim>\<open>(Eg / 3.4)**2.5\<close> is a complex number, so the value returned is of complex type.
\<close>

theorem breakdown_nonpositive_bandgap:
  assumes "Eg \<le> 0"
  shows "breakdown_voltage_model Eg thickness = (if Eg = 0 then Returns 0 else ReturnsComplex)
         \<and> \<not> raises (breakdown_voltage_model Eg thickness)"
proof (cases "Eg = 0")
  case True
  then show ?thesis
    by (simp add: breakdown_voltage_model_def float_pow_def)
next
  case False
  with assms have "Eg / 3.4 < 0" by simp
  then have "float_pow (Eg / 3.4) 2.5 = ReturnsComplex"
    by (rule float_pow_complex)
  with False show ?thesis
    by (simp add: breakdown_voltage_model_def)
qed

theorem breakdown_nonpositive_bandgap_witness:
  "breakdown_voltage_model (- 3.4) thickness_default = ReturnsComplex
   \<and> breakdown_voltage_model 0 thickness_default = Returns 0"
  using breakdown_nonpositive_bandgap [of "- 3.4" thickness_default]
    breakdown_nonpositive_bandgap [of 0 thickness_default]
  by simp

text \<open>
  C3. Whenever the channel length is not zero and the effective bandgap is not negative
  (in particular for every valid input: positive mobility, bandgap, width, length and
  oxide capacitance), the drain-current operation returns a current of at least
  \<open>1e-12\<close> A, and exactly \<open>1e-12\<close> A when \<open>Vgs < Vth\<close>.
\<close>

theorem drain_current_floor:
  assumes "L \<noteq> 0" "0 \<le> Eg_eff"
  shows "\<exists>Id. drain_current_model mu_eff Vgs Vds Eg_eff T_celsius Vth W L Cox = Returns Id
           \<and> 0.000000000001 \<le> Id \<and> (Vgs < Vth \<longrightarrow> Id = 0.000000000001)"
proof -
  have "0 \<le> Eg_eff / 3.4" using assms(2) by simp
  then have bg: "float_pow (Eg_eff / 3.4) 0.5 = Returns ((Eg_eff / 3.4) powr 0.5)"
    by (rule float_pow_half)
  show ?thesis
    using assms(1) bg by (simp add: drain_current_model_def float_div_def Let_def)
qed

theorem drain_current_floor_witness:
  "\<exists>Id. drain_current_model 1500 1 10 3.4 25 Vth_default W_default L_default Cox_default
            = Returns Id
         \<and> 0.000000000001 \<le> Id \<and> (1 < Vth_default \<longrightarrow> Id = 0.000000000001)"
  using drain_current_floor [of L_default "3.4" 1500 1 10 25 Vth_default W_default Cox_default]
  by (simp add: drain_defaults)



text \<open>
  C10. For \<open>Vds \<ge> 0\<close> and a gate voltage equal to the threshold voltage (channel length
  not zero, bandgap not negative), the drain-current operation returns exactly
  \<open>1e-12\<close> A, on the real-time page and on the trends page: neither strict test holds,
  the saturation value is 0, and the final maximum lifts it to the floor.
\<close>

theorem drain_current_at_threshold:
  assumes "0 \<le> Vds" "L \<noteq> 0" "0 \<le> Eg_eff"
  shows "drain_current_model mu_eff Vth Vds Eg_eff T_celsius Vth W L Cox = Returns 0.000000000001
         \<and> drain_current_model_trends mu_eff Vth Vds Vth W L Cox = Returns 0.000000000001"
proof -
  have "0 \<le> Eg_eff / 3.4" using assms(3) by simp
  then have bg: "float_pow (Eg_eff / 3.4) 0.5 = Returns ((Eg_eff / 3.4) powr 0.5)"
    by (rule float_pow_half)
  have sat: "\<not> Vds < 0" using assms(1) by simp
  show ?thesis
    using assms(2) bg sat
    by (simp add: drain_current_model_def drain_current_model_trends_def float_div_def Let_def)
qed

theorem drain_current_at_threshold_witness:
  "drain_current_model 1500 Vth_default 10 3.4 50 Vth_default W_default L_default Cox_default
     = Returns 0.000000000001
   \<and> drain_current_model_trends 1500 Vth_default 10 Vth_default W_default L_default Cox_default
     = Returns 0.000000000001"
  using drain_current_at_threshold
    [of 10 L_default "3.4" 1500 Vth_default 50 W_default Cox_default]
  by (simp add: drain_defaults)

text \<open>
  C9. For an array of drain voltages (channel length not zero, bandgap not negative) the
  drain-current operation returns an array of the same length whose \<open>i\<close>-th element is
  the value the operation returns for the float \<open>Vds ! i\<close>, the other arguments being
  the same.
\<close>

theorem drain_current_vectorised:
  assumes "L \<noteq> 0" "0 \<le> Eg_eff"
  shows "\<exists>Ids. drain_current_model_array mu_eff Vgs Vds Eg_eff T_celsius Vth W L Cox = Returns Ids
           \<and> length Ids = length Vds
           \<and> (\<forall>i < length Vds.
                drain_current_model mu_eff Vgs (Vds ! i) Eg_eff T_celsius Vth W L Cox
                  = Returns (Ids ! i))"
proof -
  have "0 \<le> Eg_eff / 3.4" using assms(2) by simp
  then have bg: "float_pow (Eg_eff / 3.4) 0.5 = Returns ((Eg_eff / 3.4) powr 0.5)"
    by (rule float_pow_half)
  show ?thesis
    using assms(1) bg
    by (simp add: drain_current_model_array_def drain_current_model_def float_div_def Let_def
        arr_scale_def arr_shift_def arr_square_def arr_sub_def arr_less_def np_where_def
        np_where_scalar_def np_maximum_def mult.commute mult.left_commute)
qed

theorem drain_current_vectorised_witness:
  "\<exists>Ids. drain_current_model_array 1500 5 [0, 1, 10] 3.4 25
            Vth_default W_default L_default Cox_default = Returns Ids
         \<and> length Ids = length [0, 1, 10 :: real]
         \<and> (\<forall>i < length [0, 1, 10 :: real].
              drain_current_model 1500 5 ([0, 1, 10] ! i) 3.4 25
                Vth_default W_default L_default Cox_default = Returns (Ids ! i))"
  using drain_current_vectorised
    [of L_default "3.4" 1500 5 "[0, 1, 10]" 25 Vth_default W_default Cox_default]
  by (simp add: drain_defaults)

text \<open>
  C6. Subscripting the material database with one of the names GaN, AlGaN, SiC, GaAs,
  Si returns the property record stored under that name; with any other name, such as
  InP, it raises \<^verbatim>\<open>KeyError\<close>, the unknown-material error of the code.
\<close>

theorem material_lookup:
  "(name \<in> {''GaN'', ''AlGaN'', ''SiC'', ''GaAs'', ''Si''} \<longrightarrow>
      (\<exists>props. material_properties_getitem name = Returns props
         \<and> (name, props) \<in> set material_properties))
   \<and> (name \<notin> {''GaN'', ''AlGaN'', ''SiC'', ''GaAs'', ''Si''} \<longrightarrow>
      material_properties_getitem name = Raises (KeyError name))
   \<and> material_properties_getitem ''InP'' = Raises (KeyError ''InP'')"
  by (simp add: material_properties_getitem_def material_properties_def)

theorem material_lookup_witness:
  "(\<exists>props. material_properties_getitem ''GaAs'' = Returns props
         \<and> (''GaAs'', props) \<in> set material_properties)
   \<and> material_properties_getitem ''Ni/Au'' = Raises (KeyError ''Ni/Au'')"
  using material_lookup [of "''GaAs''"] material_lookup [of "''Ni/Au''"]
  by simp

end
